theory Spec2Isabelle
  imports
    Main
    "HOL-Library.Char_ord"
    "HOL-Library.List_Lexorder"
    "HOL-Library.Multiset"
begin

section \<open>JavaScript values that occur in query keys and response bodies\<close>

text \<open>
  Query keys are arrays of JavaScript values: string literals, ids, numbers and the
  \<^verbatim>\<open>params\<close> object of a list query. An object is kept as the list of its properties in
  insertion order, because that order is observable in JavaScript; a well-formed object has
  no key twice. Numbers are integers here (page numbers, limits, status codes).
\<close>

datatype jsval =
    JUndefined
  | JNull
  | JBool bool
  | JNum int
  | JStr string
  | JArr "jsval list"
  | JObj "(string \<times> jsval) list"

text \<open>\<^verbatim>\<open>Boolean(v)\<close>: the falsy values are undefined, null, false, 0 and the empty string.\<close>

fun truthy :: "jsval \<Rightarrow> bool" where
  "truthy JUndefined = False"
| "truthy JNull = False"
| "truthy (JBool b) = b"
| "truthy (JNum n) = (n \<noteq> 0)"
| "truthy (JStr s) = (s \<noteq> [])"
| "truthy (JArr vs) = True"
| "truthy (JObj kvs) = True"

type_synonym query_key = "jsval list"

section \<open>The cache key registry: \<^verbatim>\<open>ADMIN_CACHE_KEYS\<close>\<close>

datatype resource = Orders | Products | Customers | Categories

fun resource_name :: "resource \<Rightarrow> string" where
  "resource_name Orders = ''orders''"
| "resource_name Products = ''products''"
| "resource_name Customers = ''customers''"
| "resource_name Categories = ''categories''"

text \<open>
  \<^verbatim>\<open>dashboard.stats: (timeRange?) => ['admin', 'dashboard', 'stats', timeRange].filter(Boolean)\<close>;
  an absent argument is \<open>JUndefined\<close>.
\<close>

definition dashboard_stats :: "jsval \<Rightarrow> query_key" where
  "dashboard_stats timeRange =
     filter truthy [JStr ''admin'', JStr ''dashboard'', JStr ''stats'', timeRange]"

definition dashboard_overview :: query_key where
  "dashboard_overview = [JStr ''admin'', JStr ''dashboard'', JStr ''overview'']"

definition dashboard_recentOrders :: query_key where
  "dashboard_recentOrders = [JStr ''admin'', JStr ''dashboard'', JStr ''recent-orders'']"

definition dashboard_topProducts :: query_key where
  "dashboard_topProducts = [JStr ''admin'', JStr ''dashboard'', JStr ''top-products'']"

definition dashboard_recentCustomers :: query_key where
  "dashboard_recentCustomers = [JStr ''admin'', JStr ''dashboard'', JStr ''recent-customers'']"

definition dashboard_salesAnalytics :: "string \<Rightarrow> string \<Rightarrow> query_key" where
  "dashboard_salesAnalytics period chartType =
     [JStr ''admin'', JStr ''analytics'', JStr ''sales'', JStr period, JStr chartType]"

definition dashboard_activity :: "int \<Rightarrow> query_key" where
  "dashboard_activity limit = [JStr ''admin'', JStr ''activity'', JNum limit]"

text \<open>
  The four resource blocks of \<^verbatim>\<open>ADMIN_CACHE_KEYS\<close> are the same three builders with the
  resource's name in second place:
  \<^verbatim>\<open>list: (params?) => ['admin', R, 'list', params].filter(Boolean)\<close>,
  \<^verbatim>\<open>detail: (id) => ['admin', R, 'detail', id]\<close>, \<^verbatim>\<open>stats: ['admin', R, 'stats']\<close>.
\<close>

definition list_key :: "resource \<Rightarrow> jsval \<Rightarrow> query_key" where
  "list_key r params =
     filter truthy [JStr ''admin'', JStr (resource_name r), JStr ''list'', params]"

definition detail_key :: "resource \<Rightarrow> string \<Rightarrow> query_key" where
  "detail_key r ident = [JStr ''admin'', JStr (resource_name r), JStr ''detail'', JStr ident]"

definition stats_key :: "resource \<Rightarrow> query_key" where
  "stats_key r = [JStr ''admin'', JStr (resource_name r), JStr ''stats'']"

section \<open>The query cache store\<close>

text \<open>
  The store is the query client of the cache library the repository builds on; the
  repository calls it and does not contain it. Its operations are modelled from the
  contract of the specification's "Query Cache Store" and "Data Model" sections.
\<close>

text \<open>
  Modelled from the spec: the digest of a key, which the repository leaves to the cache
  library. "paramsDigest is a canonical, order-independent serialization of query
  parameters": the properties of every object are put in the order of their names, at every
  depth; everything else is kept.
\<close>

fun hashVal :: "jsval \<Rightarrow> jsval" where
  "hashVal (JArr vs) = JArr (map hashVal vs)"
| "hashVal (JObj kvs) = JObj (sort_key fst (map (\<lambda>(k, v). (k, hashVal v)) kvs))"
| "hashVal v = v"

definition hashKey :: "query_key \<Rightarrow> query_key" where
  "hashKey k = map hashVal k"

text \<open>
  A cache entry: the cached payload (absent while nothing has been stored) and the mark
  that invalidation sets. Timestamps and subscriber counts play no part in the operations
  below and are left out.
\<close>

record 'v entry =
  data :: "'v option"
  isInvalidated :: bool

text \<open>The store holds its entries in creation order, each under the digest of its key.\<close>

type_synonym 'v query_cache = "(query_key \<times> 'v entry) list"

text \<open>
  Modelled from the spec: "every entry whose key starts with the prefix". The first argument
  is the digest an entry is stored under, the second the digest of the filter key.
\<close>

fun partialMatchKey :: "query_key \<Rightarrow> query_key \<Rightarrow> bool" where
  "partialMatchKey k [] = True"
| "partialMatchKey [] (p # ps) = False"
| "partialMatchKey (x # xs) (p # ps) = (x = p \<and> partialMatchKey xs ps)"

text \<open>Modelled from the spec: \<^verbatim>\<open>get(key)\<close>, no side effects; the payload of the entry, if any.\<close>

definition getQueryData :: "'v query_cache \<Rightarrow> query_key \<Rightarrow> 'v option" where
  "getQueryData s k = (case map_of s (hashKey k) of None \<Rightarrow> None | Some e \<Rightarrow> data e)"

text \<open>
  Modelled from the spec: \<^verbatim>\<open>set(key, data)\<close> overwrites the payload and makes the entry
  fresh again, creating the entry when the key has none. The argument is an updater applied
  to the current payload (a plain value is the constant updater). The cache library drops a
  write whose new payload is undefined; that is the \<open>None\<close> branch.
\<close>

definition setQueryData ::
  "'v query_cache \<Rightarrow> query_key \<Rightarrow> ('v option \<Rightarrow> 'v option) \<Rightarrow> 'v query_cache" where
  "setQueryData s k updater =
     (case updater (getQueryData s k) of
        None \<Rightarrow> s
      | Some v \<Rightarrow>
          (let h = hashKey k; fresh = \<lparr>data = Some v, isInvalidated = False\<rparr>
           in case map_of s h of
                None \<Rightarrow> s @ [(h, fresh)]
              | Some _ \<Rightarrow> map (\<lambda>(h', e). if h' = h then (h', fresh) else (h', e)) s))"

text \<open>
  Modelled from the spec: \<^verbatim>\<open>invalidate(keyPrefix)\<close> "marks every entry whose key starts with
  the prefix as stale without removing data".
\<close>

definition invalidateQueries :: "'v query_cache \<Rightarrow> query_key \<Rightarrow> 'v query_cache" where
  "invalidateQueries s p =
     map (\<lambda>(h, e). if partialMatchKey h (hashKey p) then (h, e\<lparr>isInvalidated := True\<rparr>)
                    else (h, e)) s"

text \<open>
  Modelled from the spec: \<^verbatim>\<open>evict(key)\<close> "removes the entry entirely". The client's
  \<^verbatim>\<open>removeQueries\<close> takes the same kind of filter as \<^verbatim>\<open>invalidateQueries\<close>.
\<close>

definition removeQueries :: "'v query_cache \<Rightarrow> query_key \<Rightarrow> 'v query_cache" where
  "removeQueries s p = filter (\<lambda>(h, e). \<not> partialMatchKey h (hashKey p)) s"

text \<open>
  A method of the repository that only talks to the query client is the list of the calls
  it makes, in order; running the list against a store gives the store it leaves behind.
\<close>

datatype qc_call = InvalidateQueries query_key | RemoveQueries query_key

fun run_call :: "'v query_cache \<Rightarrow> qc_call \<Rightarrow> 'v query_cache" where
  "run_call s (InvalidateQueries p) = invalidateQueries s p"
| "run_call s (RemoveQueries p) = removeQueries s p"

definition run_calls :: "qc_call list \<Rightarrow> 'v query_cache \<Rightarrow> 'v query_cache" where
  "run_calls cs s = foldl run_call s cs"

section \<open>The invalidation policy: \<^verbatim>\<open>AdminCacheManager\<close>\<close>

datatype action = Create | Update | Delete

definition invalidateDashboard :: "qc_call list" where
  "invalidateDashboard = [InvalidateQueries [JStr ''admin'', JStr ''dashboard'']]"

definition invalidateResource :: "resource \<Rightarrow> qc_call list" where
  "invalidateResource r =
     InvalidateQueries [JStr ''admin'', JStr (resource_name r)] # invalidateDashboard"

text \<open>
  The optional \<^verbatim>\<open>id?: string\<close> is a \<open>string option\<close>. \<^verbatim>\<open>if (id) { call }\<close> makes the call
  for a string that is present and not empty, and no call otherwise.
\<close>

definition if_id :: "string option \<Rightarrow> (string \<Rightarrow> qc_call) \<Rightarrow> qc_call list" where
  "if_id ident call =
     (case ident of None \<Rightarrow> [] | Some i \<Rightarrow> if i = [] then [] else [call i])"

fun invalidateAfterMutation :: "resource \<Rightarrow> action \<Rightarrow> string option \<Rightarrow> qc_call list" where
  "invalidateAfterMutation r Create ident =
     [InvalidateQueries [JStr ''admin'', JStr (resource_name r), JStr ''list''],
      InvalidateQueries [JStr ''admin'', JStr (resource_name r), JStr ''stats'']]
     @ invalidateDashboard"
| "invalidateAfterMutation r Update ident =
     if_id ident (\<lambda>i. InvalidateQueries
                          [JStr ''admin'', JStr (resource_name r), JStr ''detail'', JStr i])
     @ [InvalidateQueries [JStr ''admin'', JStr (resource_name r), JStr ''list'']]
     @ invalidateDashboard"
| "invalidateAfterMutation r Delete ident =
     if_id ident (\<lambda>i. RemoveQueries
                          [JStr ''admin'', JStr (resource_name r), JStr ''detail'', JStr i])
     @ [InvalidateQueries [JStr ''admin'', JStr (resource_name r), JStr ''list''],
        InvalidateQueries [JStr ''admin'', JStr (resource_name r), JStr ''stats'']]
     @ invalidateDashboard"

text \<open>
  \<^verbatim>\<open>updateOptimistically(queryKey, updateFn, rollbackFn?)\<close> reads the current payload, applies
  the update and returns the payload it read together with a \<^verbatim>\<open>rollback\<close> closure. The
  closure is \<open>manager_rollback\<close> at the captured arguments, run on the store as it is when
  the caller invokes it.
\<close>

definition updateOptimistically ::
  "'v query_cache \<Rightarrow> query_key \<Rightarrow> ('v option \<Rightarrow> 'v) \<Rightarrow> 'v option \<times> 'v query_cache" where
  "updateOptimistically s queryKey updateFn =
     (let previousData = getQueryData s queryKey
      in (previousData, setQueryData s queryKey (\<lambda>old. Some (updateFn old))))"

definition manager_rollback ::
  "query_key \<Rightarrow> ('v option \<Rightarrow> 'v) option \<Rightarrow> 'v option \<Rightarrow> 'v query_cache \<Rightarrow> 'v query_cache" where
  "manager_rollback queryKey rollbackFn previousData s =
     (case rollbackFn of
        Some f \<Rightarrow> setQueryData s queryKey (\<lambda>old. Some (f old))
      | None \<Rightarrow> setQueryData s queryKey (\<lambda>_. previousData))"

section \<open>The module-level singleton: \<^verbatim>\<open>getAdminCacheManager\<close>\<close>

text \<open>
  Objects are references into a heap. A query client is its store; an
  \<^verbatim>\<open>AdminCacheManager\<close> is the reference to the query client its constructor was given (the
  field is private and never assigned again). \<open>adminCacheManager\<close> is the module's variable,
  \<open>None\<close> for \<^verbatim>\<open>null\<close>.
\<close>

type_synonym client_ref = nat
type_synonym manager_ref = nat

record 'v heap =
  clients :: "client_ref \<Rightarrow> 'v query_cache"
  next_client :: client_ref
  managers :: "manager_ref \<Rightarrow> client_ref"
  next_manager :: manager_ref
  adminCacheManager :: "manager_ref option"

text \<open>\<^verbatim>\<open>new QueryClient()\<close>: a fresh reference with an empty store.\<close>

definition new_QueryClient :: "'v heap \<Rightarrow> client_ref \<times> 'v heap" where
  "new_QueryClient w =
     (next_client w,
      w\<lparr>clients := (clients w)(next_client w := []), next_client := Suc (next_client w)\<rparr>)"

text \<open>\<^verbatim>\<open>new AdminCacheManager(queryClient)\<close>.\<close>

definition new_AdminCacheManager :: "'v heap \<Rightarrow> client_ref \<Rightarrow> manager_ref \<times> 'v heap" where
  "new_AdminCacheManager w queryClient =
     (next_manager w,
      w\<lparr>managers := (managers w)(next_manager w := queryClient),
        next_manager := Suc (next_manager w)\<rparr>)"

definition getAdminCacheManager :: "'v heap \<Rightarrow> client_ref \<Rightarrow> manager_ref \<times> 'v heap" where
  "getAdminCacheManager w queryClient =
     (case adminCacheManager w of
        None \<Rightarrow>
          (let (m, w') = new_AdminCacheManager w queryClient
           in (m, w'\<lparr>adminCacheManager := Some m\<rparr>))
      | Some m \<Rightarrow> (m, w))"

definition useAdminCacheManager :: "'v heap \<Rightarrow> manager_ref \<times> 'v heap" where
  "useAdminCacheManager w =
     (let (queryClient, w') = new_QueryClient w in getAdminCacheManager w' queryClient)"

text \<open>A method call on a manager runs against the store of the manager's query client.\<close>

definition manager_invalidateAfterMutation ::
  "'v heap \<Rightarrow> manager_ref \<Rightarrow> resource \<Rightarrow> action \<Rightarrow> string option \<Rightarrow> 'v heap" where
  "manager_invalidateAfterMutation w m r a ident =
     (let qc = managers w m
      in w\<lparr>clients := (clients w)(qc := run_calls (invalidateAfterMutation r a ident)
                                                  (clients w qc))\<rparr>)"

definition manager_updateOptimistically ::
  "'v heap \<Rightarrow> manager_ref \<Rightarrow> query_key \<Rightarrow> ('v option \<Rightarrow> 'v) \<Rightarrow> 'v option \<times> 'v heap" where
  "manager_updateOptimistically w m queryKey updateFn =
     (let qc = managers w m;
          (previousData, s') = updateOptimistically (clients w qc) queryKey updateFn
      in (previousData, w\<lparr>clients := (clients w)(qc := s')\<rparr>))"

text \<open>
  The heaps the program can reach: every reference in use was allocated before.
\<close>

definition heap_ok :: "'v heap \<Rightarrow> bool" where
  "heap_ok w =
     (case adminCacheManager w of
        None \<Rightarrow> True
      | Some m \<Rightarrow> m < next_manager w \<and> managers w m < next_client w)"

section \<open>The realtime event channel: \<^verbatim>\<open>useAdminRealtime\<close>\<close>

text \<open>
  What a handler does is the list of its effects in order: calls to the query client and
  notifications shown to the user.
\<close>

datatype effect = QC qc_call | ToastSuccess string | ToastError string

fun cache_calls :: "effect list \<Rightarrow> qc_call list" where
  "cache_calls [] = []"
| "cache_calls (QC c # es) = c # cache_calls es"
| "cache_calls (e # es) = cache_calls es"

text \<open>
  A parsed message \<^verbatim>\<open>{ type, timestamp, data? }\<close>; of \<^verbatim>\<open>data\<close> the handler reads
  \<^verbatim>\<open>data?.action\<close> only.
\<close>

record RealTimeEvent =
  ev_type :: string
  ev_action :: "string option"

text \<open>
  \<^verbatim>\<open>eventSource.onmessage\<close>: the \<^verbatim>\<open>switch (data.type)\<close>. A message that does not parse
  (\<open>None\<close>) is caught and has no effect.
\<close>

definition onmessage :: "RealTimeEvent option \<Rightarrow> effect list" where
  "onmessage msg =
     (case msg of
        None \<Rightarrow> []
      | Some ev \<Rightarrow>
          if ev_type ev = ''connected'' then []
          else if ev_type ev = ''stats_update'' then
            [QC (InvalidateQueries [JStr ''admin'', JStr ''dashboard'', JStr ''stats''])]
          else if ev_type ev = ''order_update'' then
            [QC (InvalidateQueries [JStr ''admin'', JStr ''dashboard'', JStr ''recent-orders'']),
             QC (InvalidateQueries [JStr ''admin'', JStr ''orders''])]
            @ (if ev_action ev = Some ''created'' then [ToastSuccess ''New order received!'']
               else [])
          else if ev_type ev = ''product_update'' then
            [QC (InvalidateQueries [JStr ''admin'', JStr ''dashboard'', JStr ''top-products'']),
             QC (InvalidateQueries [JStr ''admin'', JStr ''products''])]
          else if ev_type ev = ''customer_update'' then
            [QC (InvalidateQueries
                   [JStr ''admin'', JStr ''dashboard'', JStr ''recent-customers'']),
             QC (InvalidateQueries [JStr ''admin'', JStr ''customers''])]
          else [])"

text \<open>
  The connection state of the hook: the two React states, the attempt counter, the delays
  of the reconnect timers set so far (oldest first) and the number of times the caller's
  \<^verbatim>\<open>onError\<close> was told that the channel gave up.
\<close>

record realtime_state =
  isConnected :: bool
  connectionError :: "string option"
  reconnectAttempts :: nat
  scheduled :: "int list"
  gaveUp :: nat

definition onopen :: "realtime_state \<Rightarrow> realtime_state" where
  "onopen st = st\<lparr>isConnected := True, connectionError := None, reconnectAttempts := 0\<rparr>"

text \<open>
  \<^verbatim>\<open>eventSource.onerror\<close>; the delay \<^verbatim>\<open>reconnectInterval * reconnectAttemptsRef.current\<close> is
  computed after the increment.
\<close>

definition onerror :: "int \<Rightarrow> realtime_state \<Rightarrow> realtime_state" where
  "onerror reconnectInterval st =
     (let st1 = st\<lparr>isConnected := False, connectionError := Some ''Connection error''\<rparr>
      in if reconnectAttempts st1 < 5 then
           (let n = reconnectAttempts st1 + 1
            in st1\<lparr>reconnectAttempts := n,
                   scheduled := scheduled st1 @ [reconnectInterval * int n]\<rparr>)
         else st1\<lparr>connectionError := Some ''Max reconnection attempts reached'',
                  gaveUp := gaveUp st1 + 1\<rparr>)"

datatype channel_event = Opened | Failed

fun channel_step :: "int \<Rightarrow> realtime_state \<Rightarrow> channel_event \<Rightarrow> realtime_state" where
  "channel_step i st Opened = onopen st"
| "channel_step i st Failed = onerror i st"

definition channel_run :: "int \<Rightarrow> channel_event list \<Rightarrow> realtime_state \<Rightarrow> realtime_state" where
  "channel_run i evs st = foldl (channel_step i) st evs"

text \<open>The state of a hook that has just been mounted.\<close>

definition initial_channel :: realtime_state where
  "initial_channel =
     \<lparr>isConnected = False, connectionError = None, reconnectAttempts = 0,
      scheduled = [], gaveUp = 0\<rparr>"

section \<open>The optimistic update coordinator: \<^verbatim>\<open>useOptimisticUpdate\<close>\<close>

text \<open>
  The hook's world is the store of its query client and its \<^verbatim>\<open>pendingUpdates\<close> map.
  \<^verbatim>\<open>updateOptimistically\<close> runs up to its \<^verbatim>\<open>await\<close> in one piece (\<open>hook_begin\<close>, which hands the
  captured \<^verbatim>\<open>previousData\<close> to the continuation) and resumes, in whatever state the world is
  by then, on the success path (\<open>hook_resolved\<close>) or in the \<^verbatim>\<open>catch\<close> block (\<open>hook_rejected\<close>).
\<close>

record 'v hook_state =
  cache :: "'v query_cache"
  pendingUpdates :: "string \<rightharpoonup> 'v option"

definition hook_begin ::
  "string \<Rightarrow> query_key \<Rightarrow> ('v option \<Rightarrow> 'v) \<Rightarrow> 'v hook_state \<Rightarrow> 'v option \<times> 'v hook_state" where
  "hook_begin updateId queryKey updateFn st =
     (let previousData = getQueryData (cache st) queryKey
      in (previousData,
          st\<lparr>cache := setQueryData (cache st) queryKey (\<lambda>old. Some (updateFn old)),
             pendingUpdates := (pendingUpdates st)(updateId \<mapsto> previousData)\<rparr>))"

definition hook_resolved :: "string \<Rightarrow> query_key \<Rightarrow> 'v \<Rightarrow> 'v hook_state \<Rightarrow> 'v hook_state" where
  "hook_resolved updateId queryKey result st =
     st\<lparr>cache := setQueryData (cache st) queryKey (\<lambda>_. Some result),
        pendingUpdates := (pendingUpdates st)(updateId := None)\<rparr>"

definition hook_rejected ::
  "string \<Rightarrow> query_key \<Rightarrow> 'v option \<Rightarrow> 'v hook_state \<Rightarrow> 'v hook_state \<times> effect list" where
  "hook_rejected updateId queryKey previousData st =
     (st\<lparr>cache := setQueryData (cache st) queryKey (\<lambda>_. previousData),
         pendingUpdates := (pendingUpdates st)(updateId := None)\<rparr>,
      [ToastError ''Update failed''])"

section \<open>The admin mutation hooks\<close>

datatype admin_mutation =
    UpdateOrderStatus | CreateProduct | UpdateProduct | DeleteProduct
  | CreateCategory | UpdateCategory | DeleteCategory
  | UpdateCustomer | DeleteCustomer | UpdateSettings | ResetSettings

text \<open>
  \<^verbatim>\<open>mutationFn\<close>: every hook throws unless the user is an admin and otherwise returns what
  the API client returns, a rejection with its message (\<open>Inl\<close>) or the server's answer.
\<close>

definition mutationFn :: "bool \<Rightarrow> string + 'a \<Rightarrow> string + 'a" where
  "mutationFn isAdmin api = (if \<not> isAdmin then Inl ''Admin access required'' else api)"

text \<open>The resource segment each hook's \<^verbatim>\<open>onSuccess\<close> invalidates.\<close>

fun mutation_segment :: "admin_mutation \<Rightarrow> string" where
  "mutation_segment UpdateOrderStatus = ''orders''"
| "mutation_segment CreateProduct = ''products''"
| "mutation_segment UpdateProduct = ''products''"
| "mutation_segment DeleteProduct = ''products''"
| "mutation_segment CreateCategory = ''categories''"
| "mutation_segment UpdateCategory = ''categories''"
| "mutation_segment DeleteCategory = ''categories''"
| "mutation_segment UpdateCustomer = ''customers''"
| "mutation_segment DeleteCustomer = ''customers''"
| "mutation_segment UpdateSettings = ''settings''"
| "mutation_segment ResetSettings = ''settings''"

fun success_message :: "admin_mutation \<Rightarrow> string" where
  "success_message UpdateOrderStatus = ''Order status updated''"
| "success_message CreateProduct = ''Product created successfully''"
| "success_message UpdateProduct = ''Product updated successfully''"
| "success_message DeleteProduct = ''Product deleted successfully''"
| "success_message CreateCategory = ''Category created successfully''"
| "success_message UpdateCategory = ''Category updated successfully''"
| "success_message DeleteCategory = ''Category deleted successfully''"
| "success_message UpdateCustomer = ''Customer updated successfully''"
| "success_message DeleteCustomer = ''Customer deleted successfully''"
| "success_message UpdateSettings = ''Settings updated successfully''"
| "success_message ResetSettings = ''Settings reset to defaults successfully''"

fun failure_message :: "admin_mutation \<Rightarrow> string" where
  "failure_message UpdateOrderStatus = ''Failed to update order status''"
| "failure_message CreateProduct = ''Failed to create product. Please try again.''"
| "failure_message UpdateProduct = ''Failed to update product. Please try again.''"
| "failure_message DeleteProduct = ''Failed to delete product. Please try again.''"
| "failure_message CreateCategory = ''Failed to create category. Please try again.''"
| "failure_message UpdateCategory = ''Failed to update category. Please try again.''"
| "failure_message DeleteCategory = ''Failed to delete category. Please try again.''"
| "failure_message UpdateCustomer = ''Failed to update customer. Please try again.''"
| "failure_message DeleteCustomer = ''Failed to delete customer. Please try again.''"
| "failure_message UpdateSettings = ''Failed to update settings. Please try again.''"
| "failure_message ResetSettings = ''Failed to reset settings. Please try again.''"

text \<open>
  \<^verbatim>\<open>onSuccess\<close>: the two settings hooks invalidate \<^verbatim>\<open>['admin', 'settings']\<close> only, every other
  hook its resource and the dashboard.
\<close>

definition onSuccess :: "admin_mutation \<Rightarrow> effect list" where
  "onSuccess m =
     QC (InvalidateQueries [JStr ''admin'', JStr (mutation_segment m)])
     # (if m = UpdateSettings \<or> m = ResetSettings then []
        else [QC (InvalidateQueries [JStr ''admin'', JStr ''dashboard''])])
     @ [ToastSuccess (success_message m)]"

text \<open>
  \<^verbatim>\<open>onError\<close>: a toast. The order hook always shows its title; the others show
  \<^verbatim>\<open>error?.message || '...'\<close>.
\<close>

definition onError :: "admin_mutation \<Rightarrow> string \<Rightarrow> effect list" where
  "onError m message =
     [ToastError (if m = UpdateOrderStatus \<or> message = [] then failure_message m
                  else message)]"

text \<open>
  Modelled from the spec: the mutation executor \<^verbatim>\<open>useMutation\<close> of the cache library, which
  runs \<^verbatim>\<open>mutationFn\<close> and then \<^verbatim>\<open>onSuccess\<close> if it returned, \<^verbatim>\<open>onError\<close> if it threw.
\<close>

definition mutate :: "admin_mutation \<Rightarrow> bool \<Rightarrow> string + 'a \<Rightarrow> effect list" where
  "mutate m isAdmin api =
     (case mutationFn isAdmin api of
        Inl message \<Rightarrow> onError m message
      | Inr result \<Rightarrow> onSuccess m)"

section \<open>The API client: \<^verbatim>\<open>ApiClient.request\<close>\<close>

text \<open>\<^verbatim>\<open>s.includes(sub)\<close> on strings.\<close>

fun starts_with :: "string \<Rightarrow> string \<Rightarrow> bool" where
  "starts_with s [] = True"
| "starts_with [] (c # cs) = False"
| "starts_with (d # ds) (c # cs) = (d = c \<and> starts_with ds cs)"

fun str_includes :: "string \<Rightarrow> string \<Rightarrow> bool" where
  "str_includes [] sub = (sub = [])"
| "str_includes (c # cs) sub = (starts_with (c # cs) sub \<or> str_includes cs sub)"

text \<open>What JavaScript code can throw here: an \<^verbatim>\<open>ApiError\<close>, a \<^verbatim>\<open>TypeError\<close> or something else.\<close>

record ApiError =
  message :: string
  statusCode :: "int option"
  errorCode :: jsval
  userFriendly :: bool

datatype thrown = ThrownApiError ApiError | TypeError string | OtherError

text \<open>
  Property access \<^verbatim>\<open>v.name\<close> for the names read below: a \<^verbatim>\<open>TypeError\<close> on null and undefined,
  the property of an object, undefined on everything else. \<^verbatim>\<open>v?.name\<close> is undefined instead
  of the \<^verbatim>\<open>TypeError\<close>.
\<close>

fun get_prop :: "jsval \<Rightarrow> string \<Rightarrow> thrown + jsval" where
  "get_prop JUndefined name = Inl (TypeError ''Cannot read properties of undefined'')"
| "get_prop JNull name = Inl (TypeError ''Cannot read properties of null'')"
| "get_prop (JObj kvs) name = Inr (case map_of kvs name of None \<Rightarrow> JUndefined | Some v \<Rightarrow> v)"
| "get_prop v name = Inr JUndefined"

definition opt_prop :: "jsval \<Rightarrow> string \<Rightarrow> jsval" where
  "opt_prop v name = (case get_prop v name of Inl _ \<Rightarrow> JUndefined | Inr x \<Rightarrow> x)"

text \<open>A non-empty string that does not contain \<^verbatim>\<open>'HTTP error!'\<close>, or nothing.\<close>

fun plain_message :: "jsval \<Rightarrow> string option" where
  "plain_message (JStr s) = (if s \<noteq> [] \<and> \<not> str_includes s ''HTTP error!'' then Some s else None)"
| "plain_message v = None"

fun nonempty_string :: "jsval \<Rightarrow> string option" where
  "nonempty_string (JStr s) = (if s \<noteq> [] then Some s else None)"
| "nonempty_string v = None"

definition status_message :: "int \<Rightarrow> string" where
  "status_message status =
     (if status = 400 then ''Invalid request. Please check your input and try again.''
      else if status = 401 then ''You need to log in to access this feature.''
      else if status = 403 then ''You don't have permission to perform this action.''
      else if status = 404 then
        ''This email address is not registered. Please check your email or create a new account.''
      else if status = 409 then
        ''This action conflicts with existing data. Please refresh and try again.''
      else if status = 422 then ''The provided data is invalid. Please check your input.''
      else if status = 429 then
        ''Too many requests. Please wait a moment before trying again.''
      else if status = 500 then ''Server error. Please try again later.''
      else if status = 502 \<or> status = 503 \<or> status = 504 then
        ''Service temporarily unavailable. Please try again later.''
      else ''Something went wrong. Please try again later.'')"

definition getUserFriendlyErrorMessage :: "int \<Rightarrow> jsval \<Rightarrow> thrown + string" where
  "getUserFriendlyErrorMessage status errorData =
     (case get_prop errorData ''details'' of
        Inl t \<Rightarrow> Inl t
      | Inr details \<Rightarrow>
          (case nonempty_string (opt_prop details ''error'') of
             Some s \<Rightarrow> Inr s
           | None \<Rightarrow>
               (case plain_message (opt_prop errorData ''error'') of
                  Some s \<Rightarrow> Inr s
                | None \<Rightarrow>
                    (case plain_message (opt_prop errorData ''message'') of
                       Some s \<Rightarrow> Inr s
                     | None \<Rightarrow> Inr (status_message status)))))"

text \<open>
  A response is its status and its body as \<^verbatim>\<open>response.json()\<close> gives it (\<open>None\<close> when the
  body is not JSON); a fetch either answers or throws.
\<close>

record response =
  status :: int
  body :: "jsval option"

definition ok :: "response \<Rightarrow> bool" where
  "ok r = (200 \<le> status r \<and> status r \<le> 299)"

datatype fetch_result = Answers response | Throws thrown

text \<open>
  The network as one call of \<^verbatim>\<open>request\<close> meets it: the answer to the request, to the refresh
  call and to the repeated request, of which the later ones are only read if the call is made.
\<close>

record network =
  first :: fetch_result
  refresh :: fetch_result
  second :: fetch_result

datatype client_effect = Fetch string | Logout | Redirect string

definition refreshTokens :: "fetch_result \<Rightarrow> bool" where
  "refreshTokens r = (case r of Answers resp \<Rightarrow> ok resp | Throws _ \<Rightarrow> False)"

text \<open>
  \<^verbatim>\<open>throw new ApiError(getUserFriendlyErrorMessage(status, errorData), {...})\<close> after
  \<^verbatim>\<open>errorData = await response.json().catch(() => ({}))\<close>.
\<close>

definition throw_for :: "response \<Rightarrow> thrown" where
  "throw_for r =
     (let errorData = (case body r of None \<Rightarrow> JObj [] | Some b \<Rightarrow> b)
      in case getUserFriendlyErrorMessage (status r) errorData of
           Inl t \<Rightarrow> t
         | Inr userFriendlyMessage \<Rightarrow>
             ThrownApiError
               \<lparr>message = userFriendlyMessage,
                statusCode = Some (status r),
                errorCode =
                  (let c = opt_prop errorData ''errorCode''
                   in if truthy c then c
                      else opt_prop (opt_prop errorData ''details'') ''errorCode''),
                userFriendly = True\<rparr>)"

text \<open>\<^verbatim>\<open>return await response.json()\<close>.\<close>

definition return_json :: "response \<Rightarrow> thrown + jsval" where
  "return_json r = (case body r of None \<Rightarrow> Inl OtherError | Some b \<Rightarrow> Inr b)"

text \<open>The body of the \<^verbatim>\<open>try\<close> block, with the effects made up to the point it leaves.\<close>

definition request_try ::
  "string \<Rightarrow> string \<Rightarrow> bool \<Rightarrow> network \<Rightarrow> (thrown + jsval) \<times> client_effect list" where
  "request_try baseUrl endpoint inBrowser net =
     (let url = baseUrl @ endpoint
      in case first net of
           Throws t \<Rightarrow> (Inl t, [Fetch url])
         | Answers resp \<Rightarrow>
             if status resp = 401
                \<and> \<not> str_includes endpoint ''/auth/refresh-token''
                \<and> \<not> str_includes endpoint ''/auth/login''
             then
               (if refreshTokens (refresh net) then
                  (case second net of
                     Throws t \<Rightarrow>
                       (Inl t, [Fetch url, Fetch (baseUrl @ ''/auth/refresh-token''), Fetch url])
                   | Answers retryResponse \<Rightarrow>
                       (if ok retryResponse then return_json retryResponse
                        else Inl (throw_for retryResponse),
                        [Fetch url, Fetch (baseUrl @ ''/auth/refresh-token''), Fetch url]))
                else
                  (Inl (ThrownApiError
                          \<lparr>message = ''Session expired. Please login again.'',
                           statusCode = Some 401,
                           errorCode = JStr ''SESSION_EXPIRED'',
                           userFriendly = True\<rparr>),
                   [Fetch url, Fetch (baseUrl @ ''/auth/refresh-token'')]
                   @ (if inBrowser then [Logout, Redirect ''/login''] else [])))
             else if \<not> ok resp then (Inl (throw_for resp), [Fetch url])
             else (return_json resp, [Fetch url]))"

text \<open>The \<^verbatim>\<open>catch\<close> block.\<close>

fun request_catch :: "thrown \<Rightarrow> ApiError" where
  "request_catch (ThrownApiError e) = e"
| "request_catch (TypeError msg) =
     (if str_includes msg ''fetch''
      then \<lparr>message = ''Network error. Please check your internet connection.'',
            statusCode = None, errorCode = JStr ''NETWORK_ERROR'', userFriendly = True\<rparr>
      else \<lparr>message = ''An unexpected error occurred. Please try again.'',
            statusCode = None, errorCode = JStr ''UNKNOWN_ERROR'', userFriendly = True\<rparr>)"
| "request_catch OtherError =
     \<lparr>message = ''An unexpected error occurred. Please try again.'',
      statusCode = None, errorCode = JStr ''UNKNOWN_ERROR'', userFriendly = True\<rparr>"

definition request ::
  "string \<Rightarrow> string \<Rightarrow> bool \<Rightarrow> network \<Rightarrow> (ApiError + jsval) \<times> client_effect list" where
  "request baseUrl endpoint inBrowser net =
     (case request_try baseUrl endpoint inBrowser net of
        (Inl t, effects) \<Rightarrow> (Inl (request_catch t), effects)
      | (Inr v, effects) \<Rightarrow> (Inr v, effects))"

text \<open>How often a run asked the network for \<open>url\<close>.\<close>

definition fetches :: "string \<Rightarrow> client_effect list \<Rightarrow> nat" where
  "fetches url effects = length (filter (\<lambda>e. e = Fetch url) effects)"

section \<open>The invalidation table of the specification\<close>

text \<open>
  The specification's table, in its own words, as an operation on the store. "invalidate"
  marks every entry whose key starts with one of the prefixes and changes nothing else;
  "evict" removes the entries under a key.
\<close>

definition mark_stale :: "query_key list \<Rightarrow> 'v query_cache \<Rightarrow> 'v query_cache" where
  "mark_stale ps s =
     map (\<lambda>(h, e). if list_ex (partialMatchKey h) ps then (h, e\<lparr>isInvalidated := True\<rparr>)
                    else (h, e)) s"

definition evict :: "query_key \<Rightarrow> 'v query_cache \<Rightarrow> 'v query_cache" where
  "evict p s = filter (\<lambda>(h, e). \<not> partialMatchKey h p) s"

definition dashboard_prefix :: query_key where
  "dashboard_prefix = [JStr ''admin'', JStr ''dashboard'']"

definition list_prefix :: "resource \<Rightarrow> query_key" where
  "list_prefix r = [JStr ''admin'', JStr (resource_name r), JStr ''list'']"

fun table_effect :: "resource \<Rightarrow> action \<Rightarrow> string \<Rightarrow> 'v query_cache \<Rightarrow> 'v query_cache" where
  "table_effect r Create i s = mark_stale [list_prefix r, stats_key r, dashboard_prefix] s"
| "table_effect r Update i s =
     mark_stale [detail_key r i, list_prefix r, dashboard_prefix] s"
| "table_effect r Delete i s =
     mark_stale [list_prefix r, stats_key r, dashboard_prefix] (evict (detail_key r i) s)"

text \<open>Whether some call of a list removes, or marks, the entry stored under \<open>h\<close>.\<close>

fun removes :: "query_key \<Rightarrow> qc_call \<Rightarrow> bool" where
  "removes h (RemoveQueries p) = partialMatchKey h (hashKey p)"
| "removes h (InvalidateQueries p) = False"

fun marks :: "query_key \<Rightarrow> qc_call \<Rightarrow> bool" where
  "marks h (InvalidateQueries p) = partialMatchKey h (hashKey p)"
| "marks h (RemoveQueries p) = False"

section \<open>Properties of the store\<close>

lemma map_of_set_fresh:
  "map_of s h = Some e0 \<Longrightarrow>
   map_of (map (\<lambda>(h', e). if h' = h then (h', fresh) else (h', e)) s) h = Some fresh"
  by (induction s) (auto split: if_splits)

lemma getQueryData_setQueryData:
  "updater (getQueryData s k) = Some v \<Longrightarrow> getQueryData (setQueryData s k updater) k = Some v"
proof (cases "map_of s (hashKey k)")
  case None
  assume u: "updater (getQueryData s k) = Some v"
  from None have "map_of (s @ [(hashKey k, \<lparr>data = Some v, isInvalidated = False\<rparr>)]) (hashKey k)
      = Some \<lparr>data = Some v, isInvalidated = False\<rparr>"
    by (simp add: map_add_def)
  with None u show ?thesis
    by (simp add: getQueryData_def setQueryData_def Let_def)
next
  case (Some e0)
  assume u: "updater (getQueryData s k) = Some v"
  from Some u show ?thesis
    by (simp add: getQueryData_def setQueryData_def Let_def map_of_set_fresh)
qed

lemma getQueryData_invalidateQueries:
  "getQueryData (invalidateQueries s p) k = getQueryData s k"
proof -
  have "map_of (invalidateQueries s p) h =
        map_option (\<lambda>e. if partialMatchKey h (hashKey p) then e\<lparr>isInvalidated := True\<rparr> else e)
          (map_of s h)" for h
    by (induction s) (auto simp: invalidateQueries_def)
  then show ?thesis
    by (auto simp: getQueryData_def split: option.splits)
qed

section \<open>Optimistic updates\<close>

text \<open>
  Claim C3. If the key holds the cached value \<open>v\<close> when an optimistic update starts, the
  update captures \<open>v\<close> and shows the speculative value; when the awaited mutation fails, the
  \<^verbatim>\<open>catch\<close> block writes the captured value back, so the key holds \<open>v\<close> again, whatever
  state \<open>st'\<close> the hook's world is in when the failure arrives. The rollback closure of
  \<^verbatim>\<open>AdminCacheManager.updateOptimistically\<close> does the same when no \<^verbatim>\<open>rollbackFn\<close> was given.
\<close>

theorem optimistic_rollback_restores:
  "getQueryData (cache st) queryKey = Some v \<Longrightarrow>
     fst (hook_begin updateId queryKey updateFn st) = Some v
   \<and> getQueryData (cache (snd (hook_begin updateId queryKey updateFn st))) queryKey
       = Some (updateFn (Some v))
   \<and> getQueryData
         (cache (fst (hook_rejected updateId queryKey
                        (fst (hook_begin updateId queryKey updateFn st)) st')))
         queryKey = Some v
   \<and> getQueryData
         (manager_rollback queryKey None
            (fst (updateOptimistically (cache st) queryKey updateFn)) s')
         queryKey = Some v"
  by (simp add: hook_begin_def hook_rejected_def Let_def updateOptimistically_def
        manager_rollback_def getQueryData_setQueryData)

theorem optimistic_rollback_restores_witness:
  "getQueryData
     (cache \<lparr>cache = [(detail_key Orders ''o1'', \<lparr>data = Some ''pending'', isInvalidated = False\<rparr>)],
            pendingUpdates = Map.empty\<rparr>)
     (detail_key Orders ''o1'') = Some ''pending''
   \<and> getQueryData
       (cache (fst (hook_rejected ''u1'' (detail_key Orders ''o1'')
          (fst (hook_begin ''u1'' (detail_key Orders ''o1'') (\<lambda>_. ''shipped'')
             \<lparr>cache = [(detail_key Orders ''o1'',
                        \<lparr>data = Some ''pending'', isInvalidated = False\<rparr>)],
              pendingUpdates = Map.empty\<rparr>))
          (snd (hook_begin ''u1'' (detail_key Orders ''o1'') (\<lambda>_. ''shipped'')
             \<lparr>cache = [(detail_key Orders ''o1'',
                        \<lparr>data = Some ''pending'', isInvalidated = False\<rparr>)],
              pendingUpdates = Map.empty\<rparr>)))))
       (detail_key Orders ''o1'') = Some ''pending''"
proof -
  have h: "getQueryData
     (cache \<lparr>cache = [(detail_key Orders ''o1'', \<lparr>data = Some ''pending'', isInvalidated = False\<rparr>)],
            pendingUpdates = Map.empty\<rparr>)
     (detail_key Orders ''o1'') = Some ''pending''"
    by (simp add: getQueryData_def detail_key_def hashKey_def)
  show ?thesis
    using h optimistic_rollback_restores [OF h, where updateId = "''u1''"
        and updateFn = "\<lambda>_. ''shipped''"
        and st' = "snd (hook_begin ''u1'' (detail_key Orders ''o1'') (\<lambda>_. ''shipped'')
             \<lparr>cache = [(detail_key Orders ''o1'',
                        \<lparr>data = Some ''pending'', isInvalidated = False\<rparr>)],
              pendingUpdates = Map.empty\<rparr>)"]
    by blast
qed

text \<open>
  Claim C4. A second optimistic update on a key that starts after the first has applied its
  speculative value, and before the first resolves, captures the first's speculative value
  as its \<^verbatim>\<open>previousData\<close>, not the value \<open>getQueryData (cache st) queryKey\<close> from before the
  first update. Invalidations \<open>ps\<close> arriving in between do not change that.
\<close>

theorem overlapping_updates_chain:
  "fst (hook_begin updateId2 queryKey updateFn2
          (snd (hook_begin updateId1 queryKey updateFn1 st)))
     = Some (updateFn1 (fst (hook_begin updateId1 queryKey updateFn1 st)))
   \<and> fst (hook_begin updateId1 queryKey updateFn1 st) = getQueryData (cache st) queryKey
   \<and> fst (hook_begin updateId2 queryKey updateFn2
            ((snd (hook_begin updateId1 queryKey updateFn1 st))
               \<lparr>cache := foldl invalidateQueries
                           (cache (snd (hook_begin updateId1 queryKey updateFn1 st))) ps\<rparr>))
       = Some (updateFn1 (getQueryData (cache st) queryKey))"
proof -
  have inv: "getQueryData (foldl invalidateQueries s ps) k = getQueryData s k"
    for s :: "'a query_cache" and k
    by (induction ps arbitrary: s) (simp_all add: getQueryData_invalidateQueries)
  show ?thesis
    by (simp add: hook_begin_def Let_def getQueryData_setQueryData inv)
qed

text \<open>
  Two cases the claims above leave aside. When the key held nothing before the update, the
  captured \<^verbatim>\<open>previousData\<close> is undefined and writing it back is dropped by the store, so the
  speculative value stays. And a \<^verbatim>\<open>rollbackFn\<close> passed to the manager is applied to the current
  payload in place of the restore.
\<close>

lemma rollback_without_cached_value:
  "getQueryData (cache st) queryKey = None \<Longrightarrow>
   getQueryData
     (cache (fst (hook_rejected updateId queryKey
                    (fst (hook_begin updateId queryKey updateFn st))
                    (snd (hook_begin updateId queryKey updateFn st)))))
     queryKey = Some (updateFn None)"
  by (simp add: hook_begin_def hook_rejected_def Let_def getQueryData_setQueryData
        setQueryData_def [of _ _ "\<lambda>_. None"])

lemma manager_rollback_with_rollbackFn:
  "getQueryData (manager_rollback queryKey (Some f) previousData s) queryKey
     = Some (f (getQueryData s queryKey))"
  by (simp add: manager_rollback_def getQueryData_setQueryData)

section \<open>Reconnecting the realtime channel\<close>

lemma channel_run_snoc:
  "channel_run i (evs @ [ev]) st = channel_step i (channel_run i evs st) ev"
  by (simp add: channel_run_def)

lemma failures_run:
  assumes "reconnectAttempts st = 0"
  shows "reconnectAttempts (channel_run i (replicate n Failed) st) = min n 5
       \<and> scheduled (channel_run i (replicate n Failed) st)
           = scheduled st @ map (\<lambda>k. i * int k) [1..<Suc (min n 5)]
       \<and> gaveUp (channel_run i (replicate n Failed) st) = gaveUp st + (n - 5)
       \<and> (0 < n \<longrightarrow> \<not> isConnected (channel_run i (replicate n Failed) st))
       \<and> (0 < n \<longrightarrow> connectionError (channel_run i (replicate n Failed) st)
             = Some (if n \<le> 5 then ''Connection error''
                     else ''Max reconnection attempts reached''))"
proof (induction n)
  case 0
  with assms show ?case by (simp add: channel_run_def)
next
  case (Suc n)
  have r: "replicate (Suc n) Failed = replicate n Failed @ [Failed]"
    by (simp add: replicate_append_same)
  show ?case
  proof (cases "n < 5")
    case True
    with Suc show ?thesis
      unfolding r channel_run_snoc
      by (simp add: onerror_def Let_def min_def)
  next
    case False
    then have m: "min n 5 = 5" "min (Suc n) 5 = 5" "Suc n - 5 = Suc (n - 5)"
      by simp_all
    from Suc False show ?thesis
      unfolding r channel_run_snoc m
      by (simp add: onerror_def Let_def)
  qed
qed

lemma increasing_delays:
  "0 < i \<Longrightarrow> sorted_wrt (<) (map (\<lambda>k. i * int k) [1..<Suc m])"
proof -
  assume i: "0 < i"
  have "sorted_wrt (\<lambda>a b. i * int a < i * int b) [1..<Suc m]"
    by (rule sorted_wrt_mono_rel [OF _ sorted_wrt_upt]) (use i in simp)
  then show ?thesis
    by (simp only: sorted_wrt_map)
qed

text \<open>
  Claim C6. Start with the attempt counter at 0 and let the connection fail \<open>n\<close> times in a
  row. The channel sets one reconnect timer for each of the first five failures, with the
  delays \<open>i * 1, ..., i * 5\<close> (strictly increasing for a positive interval \<open>i\<close>), and none after
  that: from the sixth failure on it sets no timer, shows
  \<^verbatim>\<open>'Max reconnection attempts reached'\<close> and tells the caller's \<^verbatim>\<open>onError\<close>. A connection that
  opens puts the counter back to 0.
\<close>

theorem reconnect_backoff:
  "reconnectAttempts st = 0 \<Longrightarrow>
     scheduled (channel_run i (replicate n Failed) st)
       = scheduled st @ map (\<lambda>k. i * int k) [1..<Suc (min n 5)]
   \<and> length (scheduled (channel_run i (replicate n Failed) st))
       = length (scheduled st) + min n 5
   \<and> reconnectAttempts (channel_run i (replicate n Failed) st) = min n 5
   \<and> (0 < i \<longrightarrow> sorted_wrt (<) (map (\<lambda>k. i * int k) [1..<Suc (min n 5)]))
   \<and> (n \<le> 5 \<longrightarrow> gaveUp (channel_run i (replicate n Failed) st) = gaveUp st)
   \<and> (5 < n \<longrightarrow>
         gaveUp (channel_run i (replicate n Failed) st) = gaveUp st + (n - 5)
       \<and> connectionError (channel_run i (replicate n Failed) st)
           = Some ''Max reconnection attempts reached''
       \<and> \<not> isConnected (channel_run i (replicate n Failed) st))
   \<and> reconnectAttempts (onopen st') = 0"
  using failures_run [of st i n] increasing_delays [of i "min n 5"]
  by (auto simp: onopen_def)

theorem reconnect_backoff_witness:
  "reconnectAttempts initial_channel = 0
   \<and> (0::int) < 5000 \<and> (5::nat) < 7
   \<and> scheduled (channel_run 5000 (replicate 7 Failed) initial_channel)
       = [5000, 10000, 15000, 20000, 25000]
   \<and> sorted_wrt (<) [5000, 10000, 15000, 20000, 25000 :: int]
   \<and> gaveUp (channel_run 5000 (replicate 7 Failed) initial_channel) = 2
   \<and> connectionError (channel_run 5000 (replicate 7 Failed) initial_channel)
       = Some ''Max reconnection attempts reached''"
proof -
  have h: "reconnectAttempts initial_channel = 0"
    by (simp add: initial_channel_def)
  have u: "[1..<Suc 5] = [1, 2, 3, 4, 5]"
    by (simp add: upt_rec)
  show ?thesis
    using h reconnect_backoff [OF h, of 5000 7] u
    by (simp add: initial_channel_def)
qed

lemma channel_attempts_bounded:
  "reconnectAttempts st \<le> 5 \<Longrightarrow> reconnectAttempts (channel_run i evs st) \<le> 5"
proof (induction evs rule: rev_induct)
  case Nil
  then show ?case by (simp add: channel_run_def)
next
  case (snoc ev evs)
  then show ?case
    by (cases ev) (auto simp: channel_run_snoc onopen_def onerror_def Let_def)
qed

section \<open>Mutations that fail\<close>

text \<open>
  Claim C9. When a mutation run through one of the admin mutation hooks fails (the user is
  not an admin, or the API client rejects), the hook runs \<^verbatim>\<open>onError\<close> only: it shows a
  notification and makes no call to the query client, so every store \<open>s\<close> is left exactly as
  it was.
\<close>

theorem failed_mutation_no_invalidation:
  "mutationFn isAdmin api = Inl err \<Longrightarrow>
     mutate m isAdmin api = onError m err
   \<and> cache_calls (mutate m isAdmin api) = []
   \<and> run_calls (cache_calls (mutate m isAdmin api)) s = s"
  by (simp add: mutate_def onError_def run_calls_def)

theorem failed_mutation_no_invalidation_witness:
  "mutationFn False (Inr ()) = Inl ''Admin access required''
   \<and> mutate CreateProduct False (Inr ()) = [ToastError ''Admin access required'']
   \<and> run_calls (cache_calls (mutate CreateProduct False (Inr ())))
        [(stats_key Products, \<lparr>data = Some (7::nat), isInvalidated = False\<rparr>)]
      = [(stats_key Products, \<lparr>data = Some 7, isInvalidated = False\<rparr>)]"
proof -
  have h: "mutationFn False (Inr ()) = Inl ''Admin access required''"
    by (simp add: mutationFn_def)
  show ?thesis
    using h failed_mutation_no_invalidation [OF h, of CreateProduct
        "[(stats_key Products, \<lparr>data = Some (7::nat), isInvalidated = False\<rparr>)]"]
    by (simp add: onError_def run_calls_def)
qed

text \<open>Invalidation is what the success path does.\<close>

lemma successful_mutation_invalidates:
  "mutationFn isAdmin api = Inr x \<Longrightarrow>
     cache_calls (mutate m isAdmin api) \<noteq> []"
  by (simp add: mutate_def onSuccess_def)

section \<open>Running calls against the store\<close>

lemma run_calls_snoc: "run_calls (cs @ [c]) s = run_call (run_calls cs s) c"
  by (simp add: run_calls_def)

lemma run_calls_Cons: "run_calls (c # cs) s = run_calls cs (run_call s c)"
  by (simp add: run_calls_def)

lemma run_calls_Nil: "run_calls [] s = s"
  by (simp add: run_calls_def)

lemma run_calls_char:
  "run_calls cs s =
     map (\<lambda>(h, e). if list_ex (marks h) cs then (h, e\<lparr>isInvalidated := True\<rparr>) else (h, e))
       (filter (\<lambda>(h, e). \<not> list_ex (removes h) cs) s)"
proof (induction cs rule: rev_induct)
  case Nil
  show ?case by (simp add: run_calls_def)
next
  case (snoc c cs)
  show ?case
  proof (cases c)
    case (InvalidateQueries p)
    show ?thesis
      unfolding run_calls_snoc snoc.IH InvalidateQueries
      by (auto simp: invalidateQueries_def)
  next
    case (RemoveQueries p)
    show ?thesis
      unfolding run_calls_snoc snoc.IH RemoveQueries
      by (auto simp: removeQueries_def filter_map o_def split_def intro!: filter_cong)
  qed
qed

lemma run_calls_idem: "run_calls cs (run_calls cs s) = run_calls cs s"
  unfolding run_calls_char
  by (auto simp: filter_map o_def split_def)

lemma invalidateQueries_idem:
  "invalidateQueries (invalidateQueries s p) p = invalidateQueries s p"
  using run_calls_idem [of "[InvalidateQueries p]" s]
  by (simp add: run_calls_def)

lemma invalidateQueries_stale_noop:
  "\<forall>(h, e) \<in> set s. partialMatchKey h (hashKey p) \<longrightarrow> isInvalidated e \<Longrightarrow>
   invalidateQueries s p = s"
  unfolding invalidateQueries_def
  by (rule map_idI) auto

lemma run_invalidations:
  "run_calls (map InvalidateQueries ps) s = mark_stale (map hashKey ps) s"
  unfolding run_calls_char mark_stale_def
  by (auto simp: list_ex_iff)

lemma hashKey_strings [simp]: "hashKey (map JStr xs) = map JStr xs"
  by (simp add: hashKey_def)

section \<open>The invalidation policy\<close>

lemma mark_stale_twice: "mark_stale ps (mark_stale qs s) = mark_stale (qs @ ps) s"
  by (auto simp: mark_stale_def)

lemma run_create:
  "run_calls (invalidateAfterMutation r Create ident) s = table_effect r Create i s"
  unfolding run_calls_char
  by (auto simp: invalidateDashboard_def mark_stale_def hashKey_def list_prefix_def
        stats_key_def dashboard_prefix_def)

lemma run_update:
  "i \<noteq> [] \<Longrightarrow>
   run_calls (invalidateAfterMutation r Update (Some i)) s = table_effect r Update i s"
  unfolding run_calls_char
  by (auto simp: invalidateDashboard_def mark_stale_def hashKey_def list_prefix_def
        detail_key_def dashboard_prefix_def if_id_def)

lemma run_delete:
  "i \<noteq> [] \<Longrightarrow>
   run_calls (invalidateAfterMutation r Delete (Some i)) s = table_effect r Delete i s"
  unfolding run_calls_char
  by (auto simp: invalidateDashboard_def mark_stale_def hashKey_def list_prefix_def
        detail_key_def stats_key_def dashboard_prefix_def if_id_def evict_def
        intro!: filter_cong)

lemma mark_stale_frame:
  "(h, e) \<in> set s \<Longrightarrow> \<not> list_ex (partialMatchKey h) ps \<Longrightarrow> (h, e) \<in> set (mark_stale ps s)"
  by (force simp: mark_stale_def)

text \<open>
  Claim C1, as the code has it. \<^verbatim>\<open>invalidateAfterMutation\<close> makes exactly the calls of the
  invalidation table, and leaves the store the table describes, for every resource and every
  id that is not the empty string: create invalidates the resource's list and stats and the
  dashboard; update invalidates the item's detail, the list and the dashboard (not the
  stats); delete removes the item's detail and invalidates the list, the stats and the
  dashboard; entries under none of these prefixes stay as they are. When the id is absent or
  empty, update and delete skip the step on the detail key and make the other calls.
\<close>

theorem invalidateAfterMutation_table:
  "i \<noteq> [] \<Longrightarrow>
     invalidateAfterMutation r Create ident =
       [InvalidateQueries (list_prefix r), InvalidateQueries (stats_key r),
        InvalidateQueries dashboard_prefix]
   \<and> invalidateAfterMutation r Update (Some i) =
       [InvalidateQueries (detail_key r i), InvalidateQueries (list_prefix r),
        InvalidateQueries dashboard_prefix]
   \<and> invalidateAfterMutation r Delete (Some i) =
       [RemoveQueries (detail_key r i), InvalidateQueries (list_prefix r),
        InvalidateQueries (stats_key r), InvalidateQueries dashboard_prefix]
   \<and> run_calls (invalidateAfterMutation r Create ident) s = table_effect r Create i s
   \<and> run_calls (invalidateAfterMutation r Update (Some i)) s = table_effect r Update i s
   \<and> run_calls (invalidateAfterMutation r Delete (Some i)) s = table_effect r Delete i s
   \<and> invalidateAfterMutation r Update None =
       [InvalidateQueries (list_prefix r), InvalidateQueries dashboard_prefix]
   \<and> invalidateAfterMutation r Update (Some []) = invalidateAfterMutation r Update None
   \<and> invalidateAfterMutation r Delete None =
       [InvalidateQueries (list_prefix r), InvalidateQueries (stats_key r),
        InvalidateQueries dashboard_prefix]
   \<and> invalidateAfterMutation r Delete (Some []) = invalidateAfterMutation r Delete None"
  using run_create [of r ident s i] run_update [of i r s] run_delete [of i r s]
  by (simp add: invalidateDashboard_def list_prefix_def detail_key_def stats_key_def
        dashboard_prefix_def if_id_def)

theorem invalidateAfterMutation_table_witness:
  "''o1'' \<noteq> []
   \<and> run_calls (invalidateAfterMutation Orders Update (Some ''o1''))
        [(detail_key Orders ''o1'', \<lparr>data = Some (1::nat), isInvalidated = False\<rparr>),
         (detail_key Orders ''o2'', \<lparr>data = Some 2, isInvalidated = False\<rparr>),
         (stats_key Orders, \<lparr>data = Some 3, isInvalidated = False\<rparr>),
         (dashboard_overview, \<lparr>data = Some 4, isInvalidated = False\<rparr>)]
     = [(detail_key Orders ''o1'', \<lparr>data = Some 1, isInvalidated = True\<rparr>),
        (detail_key Orders ''o2'', \<lparr>data = Some 2, isInvalidated = False\<rparr>),
        (stats_key Orders, \<lparr>data = Some 3, isInvalidated = False\<rparr>),
        (dashboard_overview, \<lparr>data = Some 4, isInvalidated = True\<rparr>)]"
proof -
  have h: "''o1'' \<noteq> []" by simp
  have t: "run_calls (invalidateAfterMutation Orders Update (Some ''o1'')) s
      = table_effect Orders Update ''o1'' s" for s :: "nat query_cache"
    using invalidateAfterMutation_table [OF h, of Orders None s] by blast
  show ?thesis
    unfolding t
    by (simp add: mark_stale_def detail_key_def stats_key_def dashboard_overview_def
          list_prefix_def dashboard_prefix_def)
qed

text \<open>
  The claim as written, for every id, fails at the empty id: \<^verbatim>\<open>if (id)\<close> is false for it, so
  the detail entry stored under it is neither invalidated by an update nor removed by a
  delete, as the table would have it.
\<close>

theorem invalidateAfterMutation_empty_id_counterexample:
  "run_calls (invalidateAfterMutation Orders Update (Some ''''))
     [(detail_key Orders '''', \<lparr>data = Some (1::nat), isInvalidated = False\<rparr>)]
   = [(detail_key Orders '''', \<lparr>data = Some 1, isInvalidated = False\<rparr>)]
   \<and> table_effect Orders Update ''''
       [(detail_key Orders '''', \<lparr>data = Some (1::nat), isInvalidated = False\<rparr>)]
     = [(detail_key Orders '''', \<lparr>data = Some 1, isInvalidated = True\<rparr>)]
   \<and> run_calls (invalidateAfterMutation Orders Delete (Some ''''))
       [(detail_key Orders '''', \<lparr>data = Some (1::nat), isInvalidated = False\<rparr>)]
     = [(detail_key Orders '''', \<lparr>data = Some 1, isInvalidated = False\<rparr>)]
   \<and> table_effect Orders Delete ''''
       [(detail_key Orders '''', \<lparr>data = Some (1::nat), isInvalidated = False\<rparr>)] = []"
  by (simp add: run_calls_def invalidateDashboard_def invalidateQueries_def mark_stale_def
        hashKey_def list_prefix_def detail_key_def stats_key_def dashboard_prefix_def if_id_def
        removeQueries_def evict_def)

section \<open>Realtime events\<close>

text \<open>
  Claim C2, as the code has it. The handler of a realtime event invalidates, for
  \<^verbatim>\<open>order_update\<close>, the dashboard's recent orders and everything under \<^verbatim>\<open>['admin', 'orders']\<close>;
  for \<^verbatim>\<open>product_update\<close>, the dashboard's top products and everything under
  \<^verbatim>\<open>['admin', 'products']\<close>; for \<^verbatim>\<open>customer_update\<close>, the dashboard's recent customers and
  everything under \<^verbatim>\<open>['admin', 'customers']\<close>; for \<^verbatim>\<open>stats_update\<close>, the dashboard's stats only.
  A message of any other type, or one that does not parse, invalidates nothing.
\<close>

theorem realtime_event_invalidation:
  "cache_calls (onmessage (Some \<lparr>ev_type = ''order_update'', ev_action = a\<rparr>)) =
     [InvalidateQueries dashboard_recentOrders,
      InvalidateQueries [JStr ''admin'', JStr ''orders'']]
   \<and> cache_calls (onmessage (Some \<lparr>ev_type = ''product_update'', ev_action = a\<rparr>)) =
     [InvalidateQueries dashboard_topProducts,
      InvalidateQueries [JStr ''admin'', JStr ''products'']]
   \<and> cache_calls (onmessage (Some \<lparr>ev_type = ''customer_update'', ev_action = a\<rparr>)) =
     [InvalidateQueries dashboard_recentCustomers,
      InvalidateQueries [JStr ''admin'', JStr ''customers'']]
   \<and> cache_calls (onmessage (Some \<lparr>ev_type = ''stats_update'', ev_action = a\<rparr>)) =
     [InvalidateQueries (dashboard_stats JUndefined)]
   \<and> (ev_type ev \<notin> {''order_update'', ''product_update'', ''customer_update'',
                      ''stats_update''}
        \<longrightarrow> cache_calls (onmessage (Some ev)) = [])
   \<and> cache_calls (onmessage None) = []
   \<and> run_calls (cache_calls (onmessage (Some \<lparr>ev_type = ''order_update'', ev_action = a\<rparr>))) s
       = mark_stale [dashboard_recentOrders, [JStr ''admin'', JStr ''orders'']] s
   \<and> run_calls (cache_calls (onmessage (Some \<lparr>ev_type = ''product_update'', ev_action = a\<rparr>))) s
       = mark_stale [dashboard_topProducts, [JStr ''admin'', JStr ''products'']] s
   \<and> run_calls (cache_calls (onmessage (Some \<lparr>ev_type = ''customer_update'', ev_action = a\<rparr>))) s
       = mark_stale [dashboard_recentCustomers, [JStr ''admin'', JStr ''customers'']] s
   \<and> run_calls (cache_calls (onmessage (Some \<lparr>ev_type = ''stats_update'', ev_action = a\<rparr>))) s
       = mark_stale [dashboard_stats JUndefined] s"
proof -
  have calls:
    "cache_calls (onmessage (Some \<lparr>ev_type = ''order_update'', ev_action = a\<rparr>)) =
       map InvalidateQueries [dashboard_recentOrders, [JStr ''admin'', JStr ''orders'']]"
    "cache_calls (onmessage (Some \<lparr>ev_type = ''product_update'', ev_action = a\<rparr>)) =
       map InvalidateQueries [dashboard_topProducts, [JStr ''admin'', JStr ''products'']]"
    "cache_calls (onmessage (Some \<lparr>ev_type = ''customer_update'', ev_action = a\<rparr>)) =
       map InvalidateQueries [dashboard_recentCustomers, [JStr ''admin'', JStr ''customers'']]"
    "cache_calls (onmessage (Some \<lparr>ev_type = ''stats_update'', ev_action = a\<rparr>)) =
       map InvalidateQueries [dashboard_stats JUndefined]"
    by (simp_all add: onmessage_def dashboard_recentOrders_def dashboard_topProducts_def
          dashboard_recentCustomers_def dashboard_stats_def)
  have other: "ev_type ev \<notin> {''order_update'', ''product_update'', ''customer_update'',
                      ''stats_update''}
        \<longrightarrow> cache_calls (onmessage (Some ev)) = []"
    by (simp add: onmessage_def)
  have none: "cache_calls (onmessage None) = []"
    by (simp add: onmessage_def)
  have h: "map hashKey [dashboard_recentOrders, [JStr ''admin'', JStr ''orders'']]
          = [dashboard_recentOrders, [JStr ''admin'', JStr ''orders'']]"
     "map hashKey [dashboard_topProducts, [JStr ''admin'', JStr ''products'']]
          = [dashboard_topProducts, [JStr ''admin'', JStr ''products'']]"
     "map hashKey [dashboard_recentCustomers, [JStr ''admin'', JStr ''customers'']]
          = [dashboard_recentCustomers, [JStr ''admin'', JStr ''customers'']]"
     "map hashKey [dashboard_stats JUndefined] = [dashboard_stats JUndefined]"
    by (simp_all add: hashKey_def dashboard_recentOrders_def dashboard_topProducts_def
          dashboard_recentCustomers_def dashboard_stats_def)
  show ?thesis
    unfolding calls run_invalidations h
    using other none by simp
qed

theorem realtime_event_invalidation_witness:
  "ev_type \<lparr>ev_type = ''heartbeat'', ev_action = None\<rparr>
      \<notin> {''order_update'', ''product_update'', ''customer_update'', ''stats_update''}
   \<and> cache_calls (onmessage (Some \<lparr>ev_type = ''heartbeat'', ev_action = None\<rparr>)) = []"
proof -
  have h: "ev_type \<lparr>ev_type = ''heartbeat'', ev_action = None\<rparr>
      \<notin> {''order_update'', ''product_update'', ''customer_update'', ''stats_update''}"
    by simp
  show ?thesis
    using h realtime_event_invalidation
          [where ev = "\<lparr>ev_type = ''heartbeat'', ev_action = None\<rparr>"
             and a = None and s = "[] :: nat query_cache"]
    by blast
qed

text \<open>
  The claim as written fails: on a store holding the orders' stats and the dashboard's
  overview, an \<^verbatim>\<open>order_update\<close> event marks the stats and leaves the overview, while the update
  row of the table (run for order \<^verbatim>\<open>o1\<close>) marks the overview and leaves the stats; and
  \<^verbatim>\<open>stats_update\<close> does not invalidate the dashboard prefix.
\<close>

theorem realtime_event_not_update_row_counterexample:
  "run_calls (cache_calls (onmessage (Some \<lparr>ev_type = ''order_update'', ev_action = None\<rparr>)))
     [(stats_key Orders, \<lparr>data = Some (1::nat), isInvalidated = False\<rparr>),
      (dashboard_overview, \<lparr>data = Some 2, isInvalidated = False\<rparr>)]
   = [(stats_key Orders, \<lparr>data = Some 1, isInvalidated = True\<rparr>),
      (dashboard_overview, \<lparr>data = Some 2, isInvalidated = False\<rparr>)]
   \<and> run_calls (invalidateAfterMutation Orders Update (Some ''o1''))
     [(stats_key Orders, \<lparr>data = Some (1::nat), isInvalidated = False\<rparr>),
      (dashboard_overview, \<lparr>data = Some 2, isInvalidated = False\<rparr>)]
   = [(stats_key Orders, \<lparr>data = Some 1, isInvalidated = False\<rparr>),
      (dashboard_overview, \<lparr>data = Some 2, isInvalidated = True\<rparr>)]
   \<and> cache_calls (onmessage (Some \<lparr>ev_type = ''stats_update'', ev_action = None\<rparr>))
       \<noteq> invalidateDashboard"
  by (simp add: run_calls_def onmessage_def invalidateDashboard_def invalidateQueries_def
        hashKey_def stats_key_def dashboard_overview_def if_id_def)

section \<open>Idempotence of invalidation\<close>

text \<open>
  Claim C8. Invalidating a prefix twice in a row leaves the store as invalidating it once
  does; invalidating a prefix whose matching entries are all stale already changes nothing;
  and so running the calls of a mutation's invalidation, or of a realtime event, a second
  time changes nothing.
\<close>

theorem invalidation_idempotent:
  "invalidateQueries (invalidateQueries s p) p = invalidateQueries s p
   \<and> ((\<forall>(h, e) \<in> set s. partialMatchKey h (hashKey p) \<longrightarrow> isInvalidated e)
        \<longrightarrow> invalidateQueries s p = s)
   \<and> run_calls (invalidateAfterMutation r a ident)
         (run_calls (invalidateAfterMutation r a ident) s)
       = run_calls (invalidateAfterMutation r a ident) s
   \<and> run_calls (cache_calls (onmessage msg)) (run_calls (cache_calls (onmessage msg)) s)
       = run_calls (cache_calls (onmessage msg)) s"
  using invalidateQueries_idem [of s p] invalidateQueries_stale_noop [of s p]
    run_calls_idem [of "invalidateAfterMutation r a ident" s]
    run_calls_idem [of "cache_calls (onmessage msg)" s]
  by blast

theorem invalidation_idempotent_witness:
  "isInvalidated \<lparr>data = Some (1::nat), isInvalidated = True\<rparr>
   \<and> \<not> partialMatchKey dashboard_overview (hashKey [JStr ''admin'', JStr ''orders''])
   \<and> invalidateQueries [(stats_key Orders, \<lparr>data = Some (1::nat), isInvalidated = True\<rparr>),
                        (dashboard_overview, \<lparr>data = Some 2, isInvalidated = False\<rparr>)]
         [JStr ''admin'', JStr ''orders'']
       = [(stats_key Orders, \<lparr>data = Some 1, isInvalidated = True\<rparr>),
          (dashboard_overview, \<lparr>data = Some 2, isInvalidated = False\<rparr>)]"
proof -
  have h: "\<forall>(h, e) \<in> set [(stats_key Orders, \<lparr>data = Some (1::nat), isInvalidated = True\<rparr>),
                     (dashboard_overview, \<lparr>data = Some 2, isInvalidated = False\<rparr>)].
       partialMatchKey h (hashKey [JStr ''admin'', JStr ''orders'']) \<longrightarrow> isInvalidated e"
    by (simp add: hashKey_def stats_key_def dashboard_overview_def)
  have k: "isInvalidated \<lparr>data = Some (1::nat), isInvalidated = True\<rparr>
      \<and> \<not> partialMatchKey dashboard_overview (hashKey [JStr ''admin'', JStr ''orders''])"
    by (simp add: hashKey_def dashboard_overview_def)
  show ?thesis
    using h k invalidation_idempotent
      [of "[(stats_key Orders, \<lparr>data = Some (1::nat), isInvalidated = True\<rparr>),
            (dashboard_overview, \<lparr>data = Some 2, isInvalidated = False\<rparr>)]"
          "[JStr ''admin'', JStr ''orders'']"]
    by blast
qed

section \<open>The singleton manager\<close>

lemma getAdminCacheManager_registered:
  "adminCacheManager w = Some m \<Longrightarrow> getAdminCacheManager w c = (m, w)"
  by (simp add: getAdminCacheManager_def)

lemma getAdminCacheManager_first:
  "adminCacheManager w = None \<Longrightarrow>
   getAdminCacheManager w c =
     (next_manager w,
      w\<lparr>managers := (managers w)(next_manager w := c),
        next_manager := Suc (next_manager w),
        adminCacheManager := Some (next_manager w)\<rparr>)"
  by (simp add: getAdminCacheManager_def new_AdminCacheManager_def)

text \<open>
  Claim C10. Once the module is loaded (\<open>adminCacheManager\<close> is null), a call
  \<^verbatim>\<open>getAdminCacheManager(c1)\<close> followed by \<^verbatim>\<open>getAdminCacheManager(c2)\<close> returns the same manager
  object twice and the second call changes nothing; that manager's query client is \<open>c1\<close>, so
  its \<^verbatim>\<open>invalidateAfterMutation\<close> works on the store of \<open>c1\<close> and leaves the store of \<open>c2\<close> as it
  is, and its \<^verbatim>\<open>updateOptimistically\<close> reads the payload from the store of \<open>c1\<close>. \<^verbatim>\<open>useAdminCacheManager\<close> makes a new query client on every call: the second call returns
  the manager of the first call, bound to the first call's client, and the client the second
  call has just made stays empty whatever the manager does.
\<close>

theorem singleton_keeps_first_client:
  "adminCacheManager w = None \<Longrightarrow>
     fst (getAdminCacheManager (snd (getAdminCacheManager w c1)) c2)
       = fst (getAdminCacheManager w c1)
   \<and> snd (getAdminCacheManager (snd (getAdminCacheManager w c1)) c2)
       = snd (getAdminCacheManager w c1)
   \<and> managers (snd (getAdminCacheManager w c1)) (fst (getAdminCacheManager w c1)) = c1
   \<and> clients (manager_invalidateAfterMutation
                 (snd (getAdminCacheManager (snd (getAdminCacheManager w c1)) c2))
                 (fst (getAdminCacheManager (snd (getAdminCacheManager w c1)) c2))
                 r a ident) c1
       = run_calls (invalidateAfterMutation r a ident) (clients w c1)
   \<and> (c2 \<noteq> c1 \<longrightarrow>
        clients (manager_invalidateAfterMutation
                   (snd (getAdminCacheManager (snd (getAdminCacheManager w c1)) c2))
                   (fst (getAdminCacheManager (snd (getAdminCacheManager w c1)) c2))
                   r a ident) c2
          = clients w c2)
   \<and> fst (manager_updateOptimistically
             (snd (getAdminCacheManager (snd (getAdminCacheManager w c1)) c2))
             (fst (getAdminCacheManager (snd (getAdminCacheManager w c1)) c2))
             queryKey updateFn)
       = getQueryData (clients w c1) queryKey
   \<and> fst (useAdminCacheManager (snd (useAdminCacheManager w)))
       = fst (useAdminCacheManager w)
   \<and> managers (snd (useAdminCacheManager (snd (useAdminCacheManager w))))
         (fst (useAdminCacheManager (snd (useAdminCacheManager w))))
       = next_client w
   \<and> next_client (snd (useAdminCacheManager w)) = Suc (next_client w)
   \<and> clients (manager_invalidateAfterMutation
                 (snd (useAdminCacheManager (snd (useAdminCacheManager w))))
                 (fst (useAdminCacheManager (snd (useAdminCacheManager w))))
                 r a ident) (next_client (snd (useAdminCacheManager w)))
       = []"
  by (simp add: getAdminCacheManager_def new_AdminCacheManager_def useAdminCacheManager_def
        new_QueryClient_def manager_invalidateAfterMutation_def Let_def
        manager_updateOptimistically_def updateOptimistically_def)

theorem singleton_keeps_first_client_witness:
  "adminCacheManager
     \<lparr>clients = (\<lambda>_. [] :: nat query_cache), next_client = 2, managers = (\<lambda>_. 0),
      next_manager = 0, adminCacheManager = None\<rparr> = None
   \<and> (1::nat) \<noteq> 0
   \<and> fst (getAdminCacheManager (snd (getAdminCacheManager
        \<lparr>clients = (\<lambda>_. [] :: nat query_cache), next_client = 2, managers = (\<lambda>_. 0),
         next_manager = 0, adminCacheManager = None\<rparr> 0)) 1)
      = fst (getAdminCacheManager
        \<lparr>clients = (\<lambda>_. [] :: nat query_cache), next_client = 2, managers = (\<lambda>_. 0),
         next_manager = 0, adminCacheManager = None\<rparr> 0)
   \<and> managers (snd (getAdminCacheManager
        \<lparr>clients = (\<lambda>_. [] :: nat query_cache), next_client = 2, managers = (\<lambda>_. 0),
         next_manager = 0, adminCacheManager = None\<rparr> 0))
        (fst (getAdminCacheManager
        \<lparr>clients = (\<lambda>_. [] :: nat query_cache), next_client = 2, managers = (\<lambda>_. 0),
         next_manager = 0, adminCacheManager = None\<rparr> 0)) = 0"
proof -
  have h: "adminCacheManager
     \<lparr>clients = (\<lambda>_. [] :: nat query_cache), next_client = 2, managers = (\<lambda>_. 0),
      next_manager = 0, adminCacheManager = None\<rparr> = None"
    by simp
  show ?thesis
    using h singleton_keeps_first_client [OF h, where ?c1.0 = 0 and ?c2.0 = 1
        and r = Orders and a = Create and ident = None]
    by simp
qed

text \<open>
  Every later call: once a manager is registered, \<^verbatim>\<open>useAdminCacheManager\<close> allocates a client
  that nobody uses and returns the registered manager, whose client is an older one.
\<close>

lemma later_calls_return_registered:
  "adminCacheManager w = Some m \<Longrightarrow>
     useAdminCacheManager w =
       (m, w\<lparr>clients := (clients w)(next_client w := []),
             next_client := Suc (next_client w)\<rparr>)"
  by (simp add: useAdminCacheManager_def new_QueryClient_def getAdminCacheManager_def)

lemma heap_ok_fresh_client_unused:
  "heap_ok w \<Longrightarrow> adminCacheManager w = Some m \<Longrightarrow> managers w m \<noteq> next_client w"
  by (auto simp: heap_ok_def)

lemma heap_ok_useAdminCacheManager:
  "heap_ok w \<Longrightarrow> heap_ok (snd (useAdminCacheManager w))"
  by (auto simp: heap_ok_def useAdminCacheManager_def new_QueryClient_def
        getAdminCacheManager_def new_AdminCacheManager_def split: option.splits)

section \<open>Unauthorized answers in the API client\<close>

text \<open>
  Claim C5, as the code has it. When the backend answers 401: for an endpoint that contains
  \<^verbatim>\<open>/auth/refresh-token\<close> or \<^verbatim>\<open>/auth/login\<close> the client raises the error of that answer after
  the one fetch; for any other endpoint it first calls the refresh endpoint. If the refresh
  does not succeed, the request is not repeated: the client logs out and redirects to
  \<^verbatim>\<open>/login\<close> (in a browser) and raises \<^verbatim>\<open>SESSION_EXPIRED\<close>. If the refresh succeeds, the client
  repeats the request once, without logging out, and returns or raises what the second
  answer gives.
\<close>

theorem unauthorized_refresh_then_retry_once:
  "first net = Answers resp \<Longrightarrow> status resp = 401 \<Longrightarrow>
     (str_includes endpoint ''/auth/refresh-token'' \<or> str_includes endpoint ''/auth/login''
        \<longrightarrow> request baseUrl endpoint inBrowser net
              = (Inl (request_catch (throw_for resp)), [Fetch (baseUrl @ endpoint)]))
   \<and> (\<not> str_includes endpoint ''/auth/refresh-token''
        \<and> \<not> str_includes endpoint ''/auth/login''
        \<and> \<not> refreshTokens (refresh net)
        \<longrightarrow> request baseUrl endpoint inBrowser net
              = (Inl \<lparr>message = ''Session expired. Please login again.'',
                      statusCode = Some 401, errorCode = JStr ''SESSION_EXPIRED'',
                      userFriendly = True\<rparr>,
                 [Fetch (baseUrl @ endpoint), Fetch (baseUrl @ ''/auth/refresh-token'')]
                 @ (if inBrowser then [Logout, Redirect ''/login''] else [])))
   \<and> (\<not> str_includes endpoint ''/auth/refresh-token''
        \<and> \<not> str_includes endpoint ''/auth/login''
        \<and> refreshTokens (refresh net)
        \<longrightarrow> snd (request baseUrl endpoint inBrowser net)
              = [Fetch (baseUrl @ endpoint), Fetch (baseUrl @ ''/auth/refresh-token''),
                 Fetch (baseUrl @ endpoint)]
            \<and> fst (request baseUrl endpoint inBrowser net)
              = (case second net of
                   Throws t \<Rightarrow> Inl (request_catch t)
                 | Answers retryResponse \<Rightarrow>
                     if ok retryResponse
                     then (case body retryResponse of
                             None \<Rightarrow> Inl (request_catch OtherError)
                           | Some b \<Rightarrow> Inr b)
                     else Inl (request_catch (throw_for retryResponse))))"
  by (auto simp: request_def request_try_def Let_def ok_def return_json_def
           split: fetch_result.splits option.splits)

theorem unauthorized_refresh_then_retry_once_witness:
  "first \<lparr>first = Answers \<lparr>status = 401, body = None\<rparr>,
          refresh = Answers \<lparr>status = 401, body = None\<rparr>,
          second = Throws OtherError\<rparr> = Answers \<lparr>status = 401, body = None\<rparr>
   \<and> status \<lparr>status = 401, body = None\<rparr> = 401
   \<and> \<not> str_includes ''/admin/orders'' ''/auth/refresh-token''
   \<and> \<not> str_includes ''/admin/orders'' ''/auth/login''
   \<and> \<not> refreshTokens (Answers \<lparr>status = 401, body = None\<rparr>)
   \<and> request ''/api'' ''/admin/orders'' True
        \<lparr>first = Answers \<lparr>status = 401, body = None\<rparr>,
         refresh = Answers \<lparr>status = 401, body = None\<rparr>,
         second = Throws OtherError\<rparr>
      = (Inl \<lparr>message = ''Session expired. Please login again.'',
              statusCode = Some 401, errorCode = JStr ''SESSION_EXPIRED'',
              userFriendly = True\<rparr>,
         [Fetch ''/api/admin/orders'', Fetch ''/api/auth/refresh-token'', Logout,
          Redirect ''/login''])"
proof -
  have h1: "first \<lparr>first = Answers \<lparr>status = 401, body = None\<rparr>,
          refresh = Answers \<lparr>status = 401, body = None\<rparr>,
          second = Throws OtherError\<rparr> = Answers \<lparr>status = 401, body = None\<rparr>"
    by simp
  have h2: "status \<lparr>status = 401, body = None\<rparr> = 401"
    by simp
  have h3: "\<not> str_includes ''/admin/orders'' ''/auth/refresh-token''
      \<and> \<not> str_includes ''/admin/orders'' ''/auth/login''
      \<and> \<not> refreshTokens (Answers \<lparr>status = 401, body = None\<rparr>)"
    by (simp add: refreshTokens_def ok_def)
  show ?thesis
    using h1 h2 h3
      unauthorized_refresh_then_retry_once [OF h1 h2, of "''/admin/orders''" "''/api''" True]
    by simp
qed

text \<open>
  The claim as written, no automatic retry after a 401, fails: with a refresh that succeeds
  the request goes out twice, the second answer is returned, and nobody is logged out.
\<close>

theorem unauthorized_is_retried_counterexample:
  "request ''/api'' ''/admin/orders'' True
     \<lparr>first = Answers \<lparr>status = 401, body = None\<rparr>,
      refresh = Answers \<lparr>status = 200, body = None\<rparr>,
      second = Answers \<lparr>status = 200, body = Some (JObj [(''success'', JBool True)])\<rparr>\<rparr>
   = (Inr (JObj [(''success'', JBool True)]),
      [Fetch ''/api/admin/orders'', Fetch ''/api/auth/refresh-token'',
       Fetch ''/api/admin/orders''])
   \<and> fetches ''/api/admin/orders''
         (snd (request ''/api'' ''/admin/orders'' True
            \<lparr>first = Answers \<lparr>status = 401, body = None\<rparr>,
             refresh = Answers \<lparr>status = 200, body = None\<rparr>,
             second = Answers \<lparr>status = 200,
                                body = Some (JObj [(''success'', JBool True)])\<rparr>\<rparr>)) = 2
   \<and> Logout \<notin> set (snd (request ''/api'' ''/admin/orders'' True
            \<lparr>first = Answers \<lparr>status = 401, body = None\<rparr>,
             refresh = Answers \<lparr>status = 200, body = None\<rparr>,
             second = Answers \<lparr>status = 200,
                                body = Some (JObj [(''success'', JBool True)])\<rparr>\<rparr>))"
  by (simp add: request_def request_try_def Let_def ok_def return_json_def refreshTokens_def
        fetches_def)

section \<open>Order of the keys of \<^verbatim>\<open>params\<close>\<close>

lemma sort_key_params_perm:
  assumes "distinct (map fst p)" and "mset q = mset p"
  shows "sort_key fst q = sort_key fst p"
proof -
  have "mset q = mset (sort_key fst p)"
    using assms by simp
  moreover have "inj_on fst (set q)"
    using assms by (metis distinct_map mset_eq_setD)
  moreover have "sorted (map fst (sort_key fst p))"
    by simp
  ultimately show ?thesis
    by (rule sort_key_inj_key_eq)
qed

lemma hashVal_params_perm:
  assumes "distinct (map fst p)" and "mset q = mset p"
  shows "hashVal (JObj q) = hashVal (JObj p)"
proof -
  let ?g = "\<lambda>(k, v). (k, hashVal v)"
  have dm: "map fst (map ?g p) = map fst p"
    by (induction p) auto
  have "distinct (map fst (map ?g p))"
    unfolding dm by (rule assms(1))
  moreover from assms have "mset (map ?g q) = mset (map ?g p)" by simp
  ultimately show ?thesis
    using sort_key_params_perm [of "map ?g p" "map ?g q"] by simp
qed

lemma resource_name_nonempty: "resource_name r \<noteq> []"
  by (cases r) simp_all

lemma list_key_object:
  "list_key r (JObj p) = [JStr ''admin'', JStr (resource_name r), JStr ''list'', JObj p]"
  by (simp add: list_key_def resource_name_nonempty)

text \<open>
  Claim C7. The key builder is a function of its arguments: it puts the \<^verbatim>\<open>params\<close> object, as
  given, in fourth place. Two \<^verbatim>\<open>params\<close> objects with the same key-value pairs in different
  insertion orders give keys with the same digest, so they resolve to the same cache entry:
  reads return the same payload and writes leave the same store.
\<close>

theorem list_key_order_independent:
  "distinct (map fst p) \<Longrightarrow> mset q = mset p \<Longrightarrow>
     list_key r (JObj p) = [JStr ''admin'', JStr (resource_name r), JStr ''list'', JObj p]
   \<and> list_key r (JObj q) = [JStr ''admin'', JStr (resource_name r), JStr ''list'', JObj q]
   \<and> hashKey (list_key r (JObj q)) = hashKey (list_key r (JObj p))
   \<and> getQueryData s (list_key r (JObj q)) = getQueryData s (list_key r (JObj p))
   \<and> setQueryData s (list_key r (JObj q)) u = setQueryData s (list_key r (JObj p)) u"
proof -
  assume "distinct (map fst p)" and "mset q = mset p"
  then have h: "hashVal (JObj q) = hashVal (JObj p)"
    by (rule hashVal_params_perm)
  have k: "hashKey (list_key r (JObj q)) = hashKey (list_key r (JObj p))"
    using h by (simp add: hashKey_def list_key_object)
  have g: "getQueryData s (list_key r (JObj q)) = getQueryData s (list_key r (JObj p))"
    unfolding getQueryData_def k ..
  have u: "setQueryData s (list_key r (JObj q)) u = setQueryData s (list_key r (JObj p)) u"
    unfolding setQueryData_def g k ..
  show ?thesis
    using k g u list_key_object by blast
qed

theorem list_key_order_independent_witness:
  "distinct (map fst [(''page'', JNum 1), (''limit'', JNum 20)])
   \<and> mset [(''limit'', JNum 20), (''page'', JNum 1)]
       = mset [(''page'', JNum 1), (''limit'', JNum 20)]
   \<and> [(''limit'', JNum 20), (''page'', JNum 1)] \<noteq> [(''page'', JNum 1), (''limit'', JNum 20)]
   \<and> hashKey (list_key Orders (JObj [(''limit'', JNum 20), (''page'', JNum 1)]))
       = hashKey (list_key Orders (JObj [(''page'', JNum 1), (''limit'', JNum 20)]))
   \<and> hashKey (list_key Orders (JObj [(''page'', JNum 1), (''limit'', JNum 20)]))
       = [JStr ''admin'', JStr ''orders'', JStr ''list'',
          JObj [(''limit'', JNum 20), (''page'', JNum 1)]]"
proof -
  have h1: "distinct (map fst [(''page'', JNum 1), (''limit'', JNum 20)])"
    by simp
  have h2: "mset [(''limit'', JNum 20), (''page'', JNum 1)]
       = mset [(''page'', JNum 1), (''limit'', JNum 20)]"
    by simp
  have e: "hashKey (list_key Orders (JObj [(''page'', JNum 1), (''limit'', JNum 20)]))
       = [JStr ''admin'', JStr ''orders'', JStr ''list'',
          JObj [(''limit'', JNum 20), (''page'', JNum 1)]]"
    by (simp add: hashKey_def list_key_def)
  have n: "[(''limit'', JNum 20), (''page'', JNum 1)] \<noteq> [(''page'', JNum 1), (''limit'', JNum 20)]"
    by simp
  show ?thesis
    using h1 h2 e n list_key_order_independent [OF h1 h2, of Orders "[] :: nat query_cache" id]
    by blast
qed

end
